theory Spec2Isabelle
  imports Complex_Main
begin

section \<open>The wealth simulator: data model\<close>

text \<open>
  A shallow embedding of \<^verbatim>\<open>runSimulation\<close> and \<^verbatim>\<open>generateGaussian\<close> of
  \<^verbatim>\<open>wealth-simulator/src/App.jsx\<close>.  JavaScript numbers are modelled as exact reals
  (rounding, infinities and NaN of IEEE doubles are outside the model); the three age
  fields, which the program only adds, subtracts and compares, are integers.  The body of
  \<^verbatim>\<open>runSimulation\<close> (lines 180 to 399) is one function; its blocks are named here after
  the comments and variables of the source.
\<close>

record params =
  currentAge :: int
  retirementAge :: int
  lifeExpectancy :: int
  taxableBalance :: real
  taxableContribution :: real
  preTaxBalance :: real
  preTaxContribution :: real
  rothBalance :: real
  rothContribution :: real
  minSpending :: real
  discretionarySpending :: real
  spendingCutFlexibility :: real
  fixedIncomeAnnual :: real
  fixedIncomeStartAge :: int
  expectedReturn :: real
  volatility :: real
  incomeTaxRate :: real
  capitalGainsInclusion :: real

text \<open>The three mutable balances \<^verbatim>\<open>bTaxable\<close>, \<^verbatim>\<open>bPreTax\<close>, \<^verbatim>\<open>bRoth\<close> of one run.\<close>

record ledger =
  bTaxable :: real
  bPreTax :: real
  bRoth :: real

text \<open>One run: the four arrays \<^verbatim>\<open>{ taxable, pretax, roth, total }\<close> pushed to year by year.\<close>

record run =
  taxable :: "real list"
  pretax :: "real list"
  roth :: "real list"
  total :: "real list"

record probRow =
  age :: int
  p20 :: real
  p50 :: real
  p80 :: real

record medianRow =
  mAge :: int
  mTaxable :: real
  mPretax :: real
  mRoth :: real
  mTotal :: real

text \<open>
  \<^verbatim>\<open>survivalAge\<close> is either a number (an age) or the template string
  \<^verbatim>\<open>`${params.lifeExpectancy}+`\<close>; the string is kept structured as \<open>AgePlus\<close> of the
  life expectancy it prints.
\<close>

datatype survival = Age int | AgePlus int

record result =
  probabilityData :: "probRow list"
  medianData :: "medianRow list"
  successRate :: real
  medianEndWealth :: real
  survivalAge :: survival

text \<open>Reading \<^verbatim>\<open>.p50\<close> of \<^verbatim>\<open>undefined\<close> throws a TypeError.\<close>

datatype error = TypeError

definition SIMULATIONS :: nat where
  "SIMULATIONS = 1000"

definition yearsToSimulate :: "params \<Rightarrow> int" where
  "yearsToSimulate p = lifeExpectancy p - currentAge p"

definition startTotalNetWorth :: "params \<Rightarrow> real" where
  "startTotalNetWorth p = taxableBalance p + preTaxBalance p + rothBalance p"

section \<open>One simulated year\<close>

definition ledgerTotal :: "ledger \<Rightarrow> real" where
  "ledgerTotal b = bTaxable b + bPreTax b + bRoth b"

text \<open>Step 2 (lines 216 to 220): the same sampled return grows all three accounts.\<close>

definition applyGrowth :: "real \<Rightarrow> ledger \<Rightarrow> ledger" where
  "applyGrowth realReturn b =
     \<lparr>bTaxable = bTaxable b * (1 + realReturn),
      bPreTax = bPreTax b * (1 + realReturn),
      bRoth = bRoth b * (1 + realReturn)\<rparr>"

text \<open>Step 3, accumulation branch (lines 226 to 228).\<close>

definition accumulate :: "params \<Rightarrow> ledger \<Rightarrow> ledger" where
  "accumulate p b =
     \<lparr>bTaxable = bTaxable b + taxableContribution p,
      bPreTax = bPreTax b + preTaxContribution p,
      bRoth = bRoth b + rothContribution p\<rparr>"

text \<open>
  Step 3, decumulation branch (lines 233 to 261): the amount the portfolio must cover, and
  the cut of discretionary spending in a year whose gain falls short of it.
\<close>

definition portfolioNeed :: "params \<Rightarrow> int \<Rightarrow> real" where
  "portfolioNeed p a =
     (let baseTarget = minSpending p + discretionarySpending p;
          currentFixedIncome = (if a \<ge> fixedIncomeStartAge p then fixedIncomeAnnual p else 0)
      in baseTarget - currentFixedIncome)"

definition maxCutAmount :: "params \<Rightarrow> real" where
  "maxCutAmount p = discretionarySpending p * (spendingCutFlexibility p / 100)"

definition actualPortfolioWithdrawal :: "params \<Rightarrow> int \<Rightarrow> real \<Rightarrow> real" where
  "actualPortfolioWithdrawal p a gain =
     (let need = portfolioNeed p a in
      if need > 0 then
        (if gain < need then
           (let shortfall = need - gain;
                actualCut = min shortfall (maxCutAmount p)
            in need - actualCut)
         else need)
      else need)"

text \<open>
  The ordered withdrawal (lines 270 to 316).  Each stage takes the ledger and
  \<^verbatim>\<open>remainingNetNeed\<close> and returns both, updated.
\<close>

definition withdrawTaxable :: "params \<Rightarrow> ledger \<times> real \<Rightarrow> ledger \<times> real" where
  "withdrawTaxable p st =
     (case st of (b, remainingNetNeed) \<Rightarrow>
      if remainingNetNeed > 0 \<and> bTaxable b > 0 then
        (let inclusionRate = capitalGainsInclusion p / 100;
             taxRate = incomeTaxRate p / 100;
             effectiveTaxFactor = 1 - (inclusionRate * taxRate);
             divisor = (if effectiveTaxFactor \<le> 0 then 0.01 else effectiveTaxFactor);
             grossNeeded = remainingNetNeed / divisor
         in if bTaxable b \<ge> grossNeeded
            then (b\<lparr>bTaxable := bTaxable b - grossNeeded\<rparr>, 0)
            else (let netFromTaxable = bTaxable b * divisor
                  in (b\<lparr>bTaxable := 0\<rparr>, remainingNetNeed - netFromTaxable)))
      else (b, remainingNetNeed))"

definition withdrawPreTax :: "params \<Rightarrow> ledger \<times> real \<Rightarrow> ledger \<times> real" where
  "withdrawPreTax p st =
     (case st of (b, remainingNetNeed) \<Rightarrow>
      if remainingNetNeed > 0 \<and> bPreTax b > 0 then
        (let taxRate = incomeTaxRate p / 100;
             effectiveTaxFactor = 1 - taxRate;
             divisor = (if effectiveTaxFactor \<le> 0 then 0.01 else effectiveTaxFactor);
             grossNeeded = remainingNetNeed / divisor
         in if bPreTax b \<ge> grossNeeded
            then (b\<lparr>bPreTax := bPreTax b - grossNeeded\<rparr>, 0)
            else (let netFromPreTax = bPreTax b * divisor
                  in (b\<lparr>bPreTax := 0\<rparr>, remainingNetNeed - netFromPreTax)))
      else (b, remainingNetNeed))"

definition withdrawRoth :: "ledger \<times> real \<Rightarrow> ledger \<times> real" where
  "withdrawRoth st =
     (case st of (b, remainingNetNeed) \<Rightarrow>
      if remainingNetNeed > 0 \<and> bRoth b > 0 then
        (if bRoth b \<ge> remainingNetNeed
         then (b\<lparr>bRoth := bRoth b - remainingNetNeed\<rparr>, 0)
         else (b\<lparr>bRoth := 0\<rparr>, remainingNetNeed - bRoth b))
      else (b, remainingNetNeed))"

definition withdraw :: "params \<Rightarrow> ledger \<Rightarrow> real \<Rightarrow> ledger \<times> real" where
  "withdraw p b netNeed = withdrawRoth (withdrawPreTax p (withdrawTaxable p (b, netNeed)))"

text \<open>
  Executing the cash flow of a retired year (lines 265 to 317): deposit a surplus, or
  withdraw in order.
\<close>

definition executeCashFlow :: "params \<Rightarrow> real \<Rightarrow> ledger \<Rightarrow> ledger" where
  "executeCashFlow p w b =
     (if w < 0 then b\<lparr>bTaxable := bTaxable b + \<bar>w\<bar>\<rparr>
      else fst (withdraw p b w))"

definition decumulate :: "params \<Rightarrow> int \<Rightarrow> real \<Rightarrow> ledger \<Rightarrow> ledger" where
  "decumulate p a startTotal b =
     (let currentTotal = ledgerTotal b;
          gain = currentTotal - startTotal
      in executeCashFlow p (actualPortfolioWithdrawal p a gain) b)"

definition cashflow :: "params \<Rightarrow> int \<Rightarrow> real \<Rightarrow> ledger \<Rightarrow> ledger" where
  "cashflow p a startTotal b =
     (let isRetired = (a \<ge> retirementAge p)
      in if \<not> isRetired then accumulate p b else decumulate p a startTotal b)"

text \<open>The floor at 0 (lines 322 to 324).\<close>

definition floorAtZero :: "ledger \<Rightarrow> ledger" where
  "floorAtZero b =
     \<lparr>bTaxable = (if bTaxable b < 0 then 0 else bTaxable b),
      bPreTax = (if bPreTax b < 0 then 0 else bPreTax b),
      bRoth = (if bRoth b < 0 then 0 else bRoth b)\<rparr>"

text \<open>
  The body of the year loop (lines 204 to 324) from the age to the floor, given the return
  sampled for the year; then the four pushes (lines 327 to 330).
\<close>

definition yearBody :: "params \<Rightarrow> int \<Rightarrow> real \<Rightarrow> ledger \<Rightarrow> ledger" where
  "yearBody p year realReturn b =
     (let a = currentAge p + year;
          startTotal = ledgerTotal b;
          b1 = (if year > 0 then applyGrowth realReturn b else b);
          b2 = (if year > 0 then cashflow p a startTotal b1 else b1)
      in floorAtZero b2)"

definition pushYear :: "run \<Rightarrow> ledger \<Rightarrow> run" where
  "pushYear r b =
     \<lparr>taxable = taxable r @ [bTaxable b],
      pretax = pretax r @ [bPreTax b],
      roth = roth r @ [bRoth b],
      total = total r @ [bTaxable b + bPreTax b + bRoth b]\<rparr>"

section \<open>The random source\<close>

text \<open>
  \<^verbatim>\<open>Math.random\<close> is the environment: the state of the generator is the infinite
  sequence of the uniform draws it has still to return, and one call takes the first.
\<close>

type_synonym rng = "nat \<Rightarrow> real"

definition mathRandom :: "rng \<Rightarrow> real \<times> rng" where
  "mathRandom s = (s 0, (\<lambda>n. s (Suc n)))"

text \<open>
  \<^verbatim>\<open>let u = 0; while (u === 0) u = Math.random();\<close>
  The loop does not return when every remaining draw is zero: that is the value \<open>None\<close>.
\<close>

partial_function (option) drawNonZero :: "rng \<Rightarrow> (real \<times> rng) option" where
  "drawNonZero s =
     (case mathRandom s of (u, s') \<Rightarrow> if u = 0 then drawNonZero s' else Some (u, s'))"

text \<open>\<^verbatim>\<open>generateGaussian\<close> (lines 10 to 16): the Box-Muller transform of two non-zero draws.\<close>

definition generateGaussian :: "real \<Rightarrow> real \<Rightarrow> rng \<Rightarrow> (real \<times> rng) option" where
  "generateGaussian mean stdDev s =
     (case drawNonZero s of
        None \<Rightarrow> None
      | Some (u, s1) \<Rightarrow>
          (case drawNonZero s1 of
             None \<Rightarrow> None
           | Some (v, s2) \<Rightarrow>
               (let z = sqrt (- 2.0 * ln u) * cos (2.0 * pi * v)
                in Some (mean + z * stdDev, s2))))"

section \<open>One path and the batch\<close>

text \<open>
  Step 1 of a year: the two market parameters are percentages and are sampled as fractions,
  \<^verbatim>\<open>meanRealReturn = params.expectedReturn / 100\<close> and \<^verbatim>\<open>vol = params.volatility / 100\<close>.
\<close>

definition meanRealReturn :: "params \<Rightarrow> real" where
  "meanRealReturn p = expectedReturn p / 100"

definition vol :: "params \<Rightarrow> real" where
  "vol p = volatility p / 100"

text \<open>
  \<^verbatim>\<open>for (let year = 0; year <= yearsToSimulate; year++)\<close>: one draw per year (also in year
  0, where it is not used), the year's body, the pushes.
\<close>

function yearLoop :: "params \<Rightarrow> int \<Rightarrow> ledger \<Rightarrow> run \<Rightarrow> rng \<Rightarrow> (run \<times> rng) option" where
  "yearLoop p year b r s =
     (if year \<le> yearsToSimulate p then
        (case generateGaussian (meanRealReturn p) (vol p) s of
           None \<Rightarrow> None
         | Some (realReturn, s1) \<Rightarrow>
             (let b' = yearBody p year realReturn b
              in yearLoop p (year + 1) b' (pushYear r b') s1))
      else Some (r, s))"
  by pat_completeness auto
termination
  by (relation "measure (\<lambda>(p, year, b, r, s). nat (yearsToSimulate p + 1 - year))") auto

definition simulatePath :: "params \<Rightarrow> rng \<Rightarrow> (run \<times> rng) option" where
  "simulatePath p s =
     yearLoop p 0
       \<lparr>bTaxable = taxableBalance p, bPreTax = preTaxBalance p, bRoth = rothBalance p\<rparr>
       \<lparr>taxable = [], pretax = [], roth = [], total = []\<rparr> s"

text \<open>\<^verbatim>\<open>for (let sim = 0; sim < SIMULATIONS; sim++)\<close>, pushing each run to \<^verbatim>\<open>allRuns\<close>.\<close>

function simLoop :: "params \<Rightarrow> nat \<Rightarrow> run list \<Rightarrow> rng \<Rightarrow> (run list \<times> rng) option" where
  "simLoop p sim allRuns s =
     (if sim < SIMULATIONS then
        (case simulatePath p s of
           None \<Rightarrow> None
         | Some (r, s1) \<Rightarrow> simLoop p (sim + 1) (allRuns @ [r]) s1)
      else Some (allRuns, s))"
  by pat_completeness auto
termination
  by (relation "measure (\<lambda>(p, sim, allRuns, s). SIMULATIONS - sim)") auto

section \<open>Aggregation\<close>

text \<open>The rank \<^verbatim>\<open>Math.floor(SIMULATIONS * q)\<close> (lines 346 to 348 and 360).\<close>

definition rank :: "real \<Rightarrow> nat" where
  "rank q = nat \<lfloor>real SIMULATIONS * q\<rfloor>"

text \<open>
  The rows of \<^verbatim>\<open>probabilityData\<close>, one for each \<^verbatim>\<open>i\<close> from 0 to \<^verbatim>\<open>yearsToSimulate\<close>:
  the totals of all runs at index \<^verbatim>\<open>i\<close>, sorted by \<^verbatim>\<open>(a,b) => a-b\<close>, read at three ranks.
  (Lemmas \<open>batch_total\<close> and \<open>length_yearValues\<close> below show that every index read
  here is within its array.)
\<close>

definition yearValues :: "run list \<Rightarrow> nat \<Rightarrow> real list" where
  "yearValues allRuns i = sort (map (\<lambda>r. total r ! i) allRuns)"

definition probabilityRow :: "params \<Rightarrow> run list \<Rightarrow> nat \<Rightarrow> probRow" where
  "probabilityRow p allRuns i =
     \<lparr>age = currentAge p + int i,
      p20 = yearValues allRuns i ! rank 0.2,
      p50 = yearValues allRuns i ! rank 0.5,
      p80 = yearValues allRuns i ! rank 0.8\<rparr>"

definition probabilityRows :: "params \<Rightarrow> run list \<Rightarrow> probRow list" where
  "probabilityRows p allRuns =
     map (probabilityRow p allRuns) [0 ..< nat (yearsToSimulate p + 1)]"

text \<open>
  \<^verbatim>\<open>allRuns.sort\<close> by the final total.  The sort is stable.  Were the \<^verbatim>\<open>total\<close> arrays
  empty, the comparator would return NaN, which the sort reads as 0: every run compares
  equal, as with the constant key below.
\<close>

definition finalTotal :: "run \<Rightarrow> real" where
  "finalTotal r = (if total r = [] then 0 else last (total r))"

definition sortRuns :: "run list \<Rightarrow> run list" where
  "sortRuns allRuns = sort_key finalTotal allRuns"

definition medianRows :: "params \<Rightarrow> run \<Rightarrow> medianRow list" where
  "medianRows p medianRun =
     map (\<lambda>i. \<lparr>mAge = currentAge p + int i,
               mTaxable = taxable medianRun ! i,
               mPretax = pretax medianRun ! i,
               mRoth = roth medianRun ! i,
               mTotal = total medianRun ! i\<rparr>)
         [0 ..< nat (yearsToSimulate p + 1)]"

text \<open>The filter of the success count (line 378); \<^verbatim>\<open>undefined >= x\<close> is false.\<close>

definition succeeds :: "params \<Rightarrow> run \<Rightarrow> bool" where
  "succeeds p r = (total r \<noteq> [] \<and> last (total r) \<ge> startTotalNetWorth p)"

definition successCount :: "params \<Rightarrow> run list \<Rightarrow> nat" where
  "successCount p allRuns = length (filter (succeeds p) allRuns)"

text \<open>\<^verbatim>\<open>Array.prototype.findIndex\<close>: the first index whose element satisfies the test, or -1.\<close>

fun findIndexFrom :: "('a \<Rightarrow> bool) \<Rightarrow> int \<Rightarrow> 'a list \<Rightarrow> int" where
  "findIndexFrom P i [] = - 1"
| "findIndexFrom P i (x # xs) = (if P x then i else findIndexFrom P (i + 1) xs)"

definition findIndex :: "('a \<Rightarrow> bool) \<Rightarrow> 'a list \<Rightarrow> int" where
  "findIndex P xs = findIndexFrom P 0 xs"

definition survivalAgeOf :: "params \<Rightarrow> probRow list \<Rightarrow> survival" where
  "survivalAgeOf p pd =
     (let failYearIndex = findIndex (\<lambda>d. p20 d \<le> 0) pd
      in if failYearIndex \<noteq> - 1 then Age (age (pd ! nat failYearIndex))
         else AgePlus (lifeExpectancy p))"

definition aggregate :: "params \<Rightarrow> run list \<Rightarrow> error + result" where
  "aggregate p allRuns =
     (let pd = probabilityRows p allRuns;
          sortedRuns = sortRuns allRuns;
          medianRunIndex = rank 0.5;
          medianRun = sortedRuns ! medianRunIndex;
          md = medianRows p medianRun;
          rate = (real (successCount p sortedRuns) / real SIMULATIONS) * 100;
          sa = survivalAgeOf p pd
      in if pd = [] then Inl TypeError
         else Inr \<lparr>probabilityData = pd,
                   medianData = md,
                   successRate = rate,
                   medianEndWealth = p50 (pd ! (length pd - 1)),
                   survivalAge = sa\<rparr>)"

definition runSimulation :: "params \<Rightarrow> rng \<Rightarrow> (error + result) option" where
  "runSimulation p s =
     (case simLoop p 0 [] s of
        None \<Rightarrow> None
      | Some (allRuns, s') \<Rightarrow> Some (aggregate p allRuns))"

section \<open>Inputs used in the proofs\<close>

text \<open>
  A generator state is admissible when every draw lies in \<open>[0, 1)\<close>, as \<^verbatim>\<open>Math.random\<close>
  promises, and the draws never become zero for ever.
\<close>

definition rngOk :: "rng \<Rightarrow> bool" where
  "rngOk s = ((\<forall>k. 0 \<le> s k \<and> s k < 1) \<and> (\<forall>k. \<exists>j\<ge>k. s j \<noteq> 0))"

text \<open>The generator that returns the same draw every time.\<close>

definition constStream :: "real \<Rightarrow> rng" where
  "constStream c = (\<lambda>n. c)"

text \<open>
  A recorded run is well formed at length \<open>n\<close>: its four arrays have \<open>n\<close> entries, no account
  is negative and each total is the sum of the three accounts.
\<close>

definition runWf :: "nat \<Rightarrow> run \<Rightarrow> bool" where
  "runWf n r =
     (length (taxable r) = n \<and> length (pretax r) = n \<and> length (roth r) = n
      \<and> length (total r) = n
      \<and> (\<forall>i<n. 0 \<le> taxable r ! i \<and> 0 \<le> pretax r ! i \<and> 0 \<le> roth r ! i
             \<and> total r ! i = taxable r ! i + pretax r ! i + roth r ! i))"

text \<open>
  The initial state of the form (\<^verbatim>\<open>useState\<close> in \<^verbatim>\<open>App\<close>, lines 132 to 165), and
  variations of it.
\<close>

definition defaultParams :: params where
  "defaultParams =
     \<lparr>currentAge = 35, retirementAge = 65, lifeExpectancy = 90,
      taxableBalance = 50000, taxableContribution = 5000,
      preTaxBalance = 40000, preTaxContribution = 10000,
      rothBalance = 10000, rothContribution = 6000,
      minSpending = 40000, discretionarySpending = 20000, spendingCutFlexibility = 50,
      fixedIncomeAnnual = 0, fixedIncomeStartAge = 65,
      expectedReturn = 4.5, volatility = 15.0,
      incomeTaxRate = 30, capitalGainsInclusion = 50\<rparr>"

definition surplusParams :: params where
  "surplusParams = defaultParams\<lparr>discretionarySpending := 0, fixedIncomeAnnual := 50000\<rparr>"

definition badYearParams :: params where
  "badYearParams = defaultParams\<lparr>spendingCutFlexibility := 100, fixedIncomeAnnual := 50000\<rparr>"

definition allSucceedParams :: params where
  "allSucceedParams =
     defaultParams\<lparr>currentAge := 64, retirementAge := 65, lifeExpectancy := 66,
                   fixedIncomeAnnual := 60000\<rparr>"

definition allSucceedPath :: run where
  "allSucceedPath =
     \<lparr>taxable = [50000, 52250, 54601.25],
      pretax = [40000, 41800, 43681],
      roth = [10000, 10450, 10920.25],
      total = [100000, 104500, 109202.5]\<rparr>"


definition zeroVolParams :: params where
  "zeroVolParams = defaultParams\<lparr>volatility := 0\<rparr>"




section \<open>Lemmas\<close>

subsection \<open>The random source always delivers\<close>

lemma drawNonZero_at:
  "s j \<noteq> 0 \<Longrightarrow> (\<forall>i<j. s i = 0) \<Longrightarrow> drawNonZero s = Some (s j, (\<lambda>n. s (Suc (j + n))))"
proof (induction j arbitrary: s)
  case 0
  then show ?case by (subst drawNonZero.simps) (simp add: mathRandom_def)
next
  case (Suc j)
  let ?t = "\<lambda>n. s (Suc n)"
  have "drawNonZero ?t = Some (?t j, (\<lambda>n. ?t (Suc (j + n))))"
    using Suc.prems by (intro Suc.IH) auto
  moreover have "s 0 = 0" using Suc.prems by simp
  ultimately show ?case by (subst drawNonZero.simps) (simp add: mathRandom_def)
qed

lemma rngOk_shift: 
  assumes "rngOk s" shows "rngOk (\<lambda>n. s (Suc (j + n)))"
proof -
  have "\<exists>i\<ge>k. s (Suc (j + i)) \<noteq> 0" for k
  proof -
    from assms obtain m where m: "m \<ge> Suc (j + k)" "s m \<noteq> 0" 
      unfolding rngOk_def by blast
    then have "m - Suc j \<ge> k" "s (Suc (j + (m - Suc j))) \<noteq> 0" by auto
    then show ?thesis by blast
  qed
  then show ?thesis using assms unfolding rngOk_def by blast
qed

lemma drawNonZero_total:
  assumes "rngOk s"
  shows "\<exists>u s'. drawNonZero s = Some (u, s') \<and> rngOk s' \<and> 0 < u \<and> u < 1"
proof -
  from assms have "\<exists>j. s j \<noteq> 0" unfolding rngOk_def by blast
  then obtain j where j: "s j \<noteq> 0" "\<forall>i<j. s i = 0"
    using exists_least_iff [of "\<lambda>j. s j \<noteq> 0"] by auto
  have "drawNonZero s = Some (s j, (\<lambda>n. s (Suc (j + n))))"
    using j by (rule drawNonZero_at)
  moreover have "0 < s j \<and> s j < 1" using assms j(1) unfolding rngOk_def
    by (metis less_eq_real_def)
  ultimately show ?thesis using rngOk_shift [OF assms] by blast
qed

lemma generateGaussian_total:
  assumes "rngOk s"
  shows "\<exists>x s'. generateGaussian m sd s = Some (x, s') \<and> rngOk s'"
proof -
  from drawNonZero_total [OF assms] obtain u s1
    where 1: "drawNonZero s = Some (u, s1)" "rngOk s1" by blast
  from drawNonZero_total [OF 1(2)] obtain v s2
    where 2: "drawNonZero s1 = Some (v, s2)" "rngOk s2" by blast
  show ?thesis using 1 2 by (simp add: generateGaussian_def Let_def)
qed

lemma generateGaussian_zero_dev:
  "generateGaussian m 0 s = Some (x, s') \<Longrightarrow> x = m"
  by (auto simp: generateGaussian_def Let_def split: option.splits)

lemma rngOk_constStream: "0 < c \<Longrightarrow> c < 1 \<Longrightarrow> rngOk (constStream c)"
  by (auto simp: rngOk_def constStream_def)

lemma drawNonZero_constStream:
  "c \<noteq> 0 \<Longrightarrow> drawNonZero (constStream c) = Some (c, constStream c)"
  by (subst drawNonZero.simps) (simp add: mathRandom_def constStream_def)

lemma generateGaussian_quarter:
  "generateGaussian m sd (constStream (1/4)) = Some (m, constStream (1/4))"
proof -
  have "cos (2 * pi * (1/4)) = 0" by simp
  then show ?thesis
    by (simp add: generateGaussian_def drawNonZero_constStream Let_def)
qed

subsection \<open>The year loop\<close>

declare yearLoop.simps [simp del] simLoop.simps [simp del]

lemma yearBody_nonneg:
  "0 \<le> bTaxable (yearBody p year x b) \<and> 0 \<le> bPreTax (yearBody p year x b)
   \<and> 0 \<le> bRoth (yearBody p year x b)"
  by (simp add: yearBody_def floorAtZero_def Let_def)

lemma pushYear_wf:
  assumes "runWf n r" and "0 \<le> bTaxable b" and "0 \<le> bPreTax b" and "0 \<le> bRoth b"
  shows "runWf (Suc n) (pushYear r b)"
  using assms by (auto simp: runWf_def pushYear_def nth_append less_Suc_eq)

lemma yearLoop_wf:
  "yearLoop p year b r s = Some (r', s') \<Longrightarrow> runWf n r
   \<Longrightarrow> runWf (n + nat (yearsToSimulate p + 1 - year)) r'"
proof (induction p year b r s arbitrary: n rule: yearLoop.induct)
  case (1 p year b r s)
  show ?case
  proof (cases "year \<le> yearsToSimulate p")
    case False
    with "1.prems" show ?thesis by (simp add: yearLoop.simps [of p year])
  next
    case True
    from "1.prems"(1) True obtain x s1
      where g: "generateGaussian (meanRealReturn p) (vol p) s = Some (x, s1)"
        and rest: "yearLoop p (year + 1) (yearBody p year x b) (pushYear r (yearBody p year x b)) s1
                     = Some (r', s')"
      by (auto simp: yearLoop.simps [of p year] Let_def split: option.splits)
    have "runWf (Suc n) (pushYear r (yearBody p year x b))"
      using "1.prems"(2) yearBody_nonneg [of p year x b] by (intro pushYear_wf) auto
    from "1.IH" [OF True g refl refl rest this]
    have "runWf (Suc n + nat (yearsToSimulate p + 1 - (year + 1))) r'" .
    moreover have "Suc n + nat (yearsToSimulate p + 1 - (year + 1))
                     = n + nat (yearsToSimulate p + 1 - year)"
      using True by simp
    ultimately show ?thesis by (simp only:)
  qed
qed

lemma yearLoop_total:
  "rngOk s \<Longrightarrow> \<exists>r' s'. yearLoop p year b r s = Some (r', s') \<and> rngOk s'"
proof (induction p year b r s rule: yearLoop.induct)
  case (1 p year b r s)
  show ?case
  proof (cases "year \<le> yearsToSimulate p")
    case False
    with "1.prems" show ?thesis by (simp add: yearLoop.simps [of p year])
  next
    case True
    from generateGaussian_total [OF "1.prems"] obtain x s1
      where g: "generateGaussian (meanRealReturn p) (vol p) s = Some (x, s1)"
        and ok: "rngOk s1"
      by blast
    from "1.IH" [OF True g refl refl ok] show ?thesis
      using True g by (simp add: yearLoop.simps [of p year] Let_def)
  qed
qed

lemma yearLoop_zero_volatility:
  "volatility p = 0 \<Longrightarrow> yearLoop p year b r s = Some (r1, s1)
   \<Longrightarrow> yearLoop p year b r t = Some (r2, t2) \<Longrightarrow> r1 = r2"
proof (induction p year b r s arbitrary: t rule: yearLoop.induct)
  case (1 p year b r s)
  show ?case
  proof (cases "year \<le> yearsToSimulate p")
    case False
    with "1.prems" show ?thesis by (simp add: yearLoop.simps [of p year])
  next
    case True
    let ?m = "meanRealReturn p"
    have v0: "vol p = 0" using "1.prems"(1) by (simp add: vol_def)
    from "1.prems"(2) True obtain x s'
      where g: "generateGaussian ?m (vol p) s = Some (x, s')"
        and rest: "yearLoop p (year + 1) (yearBody p year x b) (pushYear r (yearBody p year x b)) s'
                     = Some (r1, s1)"
      by (auto simp: yearLoop.simps [of p year] Let_def split: option.splits)
    from "1.prems"(3) True obtain y t'
      where g': "generateGaussian ?m (vol p) t = Some (y, t')"
        and rest': "yearLoop p (year + 1) (yearBody p year y b) (pushYear r (yearBody p year y b)) t'
                     = Some (r2, t2)"
      by (auto simp: yearLoop.simps [of p year] Let_def split: option.splits)
    have "x = ?m" "y = ?m"
      using g g' by (auto simp: v0 dest: generateGaussian_zero_dev)
    then have "y = x" by (simp only:)
    with rest' have rest'': "yearLoop p (year + 1) (yearBody p year x b)
        (pushYear r (yearBody p year x b)) t' = Some (r2, t2)" by simp
    from "1.IH" [OF True g refl refl "1.prems"(1) rest rest''] show ?thesis .
  qed
qed

lemma simulatePath_wf:
  "simulatePath p s = Some (r, s') \<Longrightarrow> runWf (nat (yearsToSimulate p + 1)) r"
  using yearLoop_wf [of p 0 _ _ s r s' 0]
  by (simp add: simulatePath_def runWf_def)



lemma simulatePath_total:
  "rngOk s \<Longrightarrow> \<exists>r s'. simulatePath p s = Some (r, s') \<and> rngOk s'"
  unfolding simulatePath_def by (rule yearLoop_total)

lemma simulatePath_zero_volatility:
  "volatility p = 0 \<Longrightarrow> simulatePath p s = Some (r1, s1)
   \<Longrightarrow> simulatePath p t = Some (r2, t2) \<Longrightarrow> r1 = r2"
  unfolding simulatePath_def by (rule yearLoop_zero_volatility)

subsection \<open>The batch\<close>

lemma simLoop_total:
  "rngOk s \<Longrightarrow> \<exists>rs s'. simLoop p sim acc s = Some (rs, s') \<and> rngOk s'"
proof (induction p sim acc s rule: simLoop.induct)
  case (1 p sim allRuns s)
  show ?case
  proof (cases "sim < SIMULATIONS")
    case False
    with "1.prems" show ?thesis by (simp add: simLoop.simps [of p sim])
  next
    case True
    from simulatePath_total [OF "1.prems"] obtain r s1
      where g: "simulatePath p s = Some (r, s1)" and ok: "rngOk s1" by blast
    from "1.IH" [OF True g refl ok] show ?thesis
      using True g by (simp add: simLoop.simps [of p sim])
  qed
qed

lemma simLoop_length:
  "simLoop p sim acc s = Some (rs, s') \<Longrightarrow> length rs = length acc + (SIMULATIONS - sim)"
proof (induction p sim acc s rule: simLoop.induct)
  case (1 p sim allRuns s)
  show ?case
  proof (cases "sim < SIMULATIONS")
    case False
    with "1.prems" show ?thesis by (simp add: simLoop.simps [of p sim])
  next
    case True
    from "1.prems" True obtain r s1
      where g: "simulatePath p s = Some (r, s1)"
        and rest: "simLoop p (sim + 1) (allRuns @ [r]) s1 = Some (rs, s')"
      by (auto simp: simLoop.simps [of p sim] split: option.splits)
    from "1.IH" [OF True g refl rest] show ?thesis using True by simp
  qed
qed

lemma simLoop_all:
  assumes "simLoop p sim acc s = Some (rs, s')"
    and "\<forall>r\<in>set acc. Q r"
    and "\<And>t r t'. simulatePath p t = Some (r, t') \<Longrightarrow> Q r"
  shows "\<forall>r\<in>set rs. Q r"
  using assms
proof (induction p sim acc s rule: simLoop.induct)
  case (1 p sim allRuns s)
  show ?case
  proof (cases "sim < SIMULATIONS")
    case False
    with "1.prems" show ?thesis by (simp add: simLoop.simps [of p sim])
  next
    case True
    from "1.prems"(1) True obtain r s1
      where g: "simulatePath p s = Some (r, s1)"
        and rest: "simLoop p (sim + 1) (allRuns @ [r]) s1 = Some (rs, s')"
      by (auto simp: simLoop.simps [of p sim] split: option.splits)
    have "\<forall>x\<in>set (allRuns @ [r]). Q x"
      using "1.prems"(2) "1.prems"(3) [OF g] by simp
    from "1.IH" [OF True g refl rest this "1.prems"(3)] show ?thesis .
  qed
qed

lemma batch_total:
  assumes "rngOk s"
  shows "\<exists>allRuns s'. simLoop p 0 [] s = Some (allRuns, s') \<and> length allRuns = SIMULATIONS
           \<and> (\<forall>r\<in>set allRuns. runWf (nat (yearsToSimulate p + 1)) r)"
proof -
  from simLoop_total [OF assms] obtain allRuns s'
    where 1: "simLoop p 0 [] s = Some (allRuns, s')" by blast
  have "length allRuns = SIMULATIONS" using simLoop_length [OF 1] by simp
  moreover have "\<forall>r\<in>set allRuns. runWf (nat (yearsToSimulate p + 1)) r"
    by (rule simLoop_all [OF 1]) (auto dest: simulatePath_wf)
  ultimately show ?thesis using 1 by blast
qed

lemma simLoop_fixed_stream:
  "simulatePath p s = Some (r, s)
   \<Longrightarrow> simLoop p sim acc s = Some (acc @ replicate (SIMULATIONS - sim) r, s)"
proof (induction p sim acc s rule: simLoop.induct)
  case (1 p sim allRuns s)
  show ?case
  proof (cases "sim < SIMULATIONS")
    case False
    then show ?thesis by (simp add: simLoop.simps [of p sim])
  next
    case True
    have "simLoop p (sim + 1) (allRuns @ [r]) s
            = Some ((allRuns @ [r]) @ replicate (SIMULATIONS - (sim + 1)) r, s)"
      using "1.IH" [OF True "1.prems" refl "1.prems"] .
    moreover have "replicate (SIMULATIONS - sim) r = r # replicate (SIMULATIONS - (sim + 1)) r"
      using True by (cases "SIMULATIONS - sim") auto
    ultimately show ?thesis
      using True "1.prems" by (simp add: simLoop.simps [of p sim])
  qed
qed

lemma zero_volatility_batch:
  assumes "rngOk s" and "volatility p = 0"
  shows "\<exists>r0 s'. simLoop p 0 [] s = Some (replicate SIMULATIONS r0, s')
           \<and> runWf (nat (yearsToSimulate p + 1)) r0"
proof -
  from simulatePath_total [OF assms(1), of p] obtain r0 s0
    where r0: "simulatePath p s = Some (r0, s0)" by blast
  from batch_total [OF assms(1), of p] obtain allRuns s'
    where 1: "simLoop p 0 [] s = Some (allRuns, s')" "length allRuns = SIMULATIONS" by blast
  have "\<forall>r\<in>set allRuns. r = r0"
  proof (rule simLoop_all [OF 1(1)])
    show "\<forall>r\<in>set []. r = r0" by simp
  next
    fix t r t' assume "simulatePath p t = Some (r, t')"
    from simulatePath_zero_volatility [OF assms(2) this r0] show "r = r0" .
  qed
  then have "replicate (length allRuns) r0 = allRuns"
    by (intro replicate_length_same) blast
  with 1 have "simLoop p 0 [] s = Some (replicate SIMULATIONS r0, s')" by simp
  moreover have "runWf (nat (yearsToSimulate p + 1)) r0"
    using r0 by (rule simulatePath_wf)
  ultimately show ?thesis by blast
qed

subsection \<open>The aggregates\<close>

lemma rank_values:
  "rank 0.2 = 200" "rank 0.5 = 500" "rank 0.8 = 800"
  "rank (1 / 5) = 200" "rank (1 / 2) = 500" "rank (4 / 5) = 800"
  by (simp_all add: rank_def SIMULATIONS_def)

lemma length_yearValues: "length (yearValues allRuns i) = length allRuns"
  by (simp add: yearValues_def)

lemma sorted_yearValues: "sorted (yearValues allRuns i)"
  by (simp add: yearValues_def)

lemma length_probabilityRows:
  "length (probabilityRows p allRuns) = nat (yearsToSimulate p + 1)"
  by (simp add: probabilityRows_def)

lemma nth_probabilityRows:
  "i < nat (yearsToSimulate p + 1) \<Longrightarrow> probabilityRows p allRuns ! i = probabilityRow p allRuns i"
  by (simp add: probabilityRows_def)

lemma probabilityRows_empty:
  "(probabilityRows p allRuns = []) = (lifeExpectancy p < currentAge p)"
  by (auto simp: probabilityRows_def yearsToSimulate_def)

lemma probabilityRow_ordered:
  assumes "length allRuns = SIMULATIONS"
  shows "p20 (probabilityRow p allRuns i) \<le> p50 (probabilityRow p allRuns i)
       \<and> p50 (probabilityRow p allRuns i) \<le> p80 (probabilityRow p allRuns i)"
  using assms sorted_yearValues [of allRuns i]
  by (simp add: probabilityRow_def rank_values sorted_nth_mono length_yearValues SIMULATIONS_def)



lemma successCount_sortRuns: "successCount p (sortRuns allRuns) = successCount p allRuns"
  by (simp add: successCount_def sortRuns_def filter_sort)

lemma successCount_le: "successCount p allRuns \<le> length allRuns"
  by (simp add: successCount_def)

lemma succeeds_wf:
  "runWf (nat (yearsToSimulate p + 1)) r \<Longrightarrow> currentAge p \<le> lifeExpectancy p
   \<Longrightarrow> succeeds p r = (last (total r) \<ge> taxableBalance p + preTaxBalance p + rothBalance p)"
  by (auto simp: succeeds_def runWf_def startTotalNetWorth_def yearsToSimulate_def)

lemma aggregate_result:
  assumes "currentAge p \<le> lifeExpectancy p"
  shows "aggregate p allRuns =
     Inr \<lparr>probabilityData = probabilityRows p allRuns,
          medianData = medianRows p (sortRuns allRuns ! 500),
          successRate = real (successCount p allRuns) / real SIMULATIONS * 100,
          medianEndWealth = p50 (probabilityRows p allRuns ! (length (probabilityRows p allRuns) - 1)),
          survivalAge = survivalAgeOf p (probabilityRows p allRuns)\<rparr>"
  using assms
  by (simp add: aggregate_def Let_def probabilityRows_empty successCount_sortRuns rank_values)

lemma aggregate_error:
  "lifeExpectancy p < currentAge p \<Longrightarrow> aggregate p allRuns = Inl TypeError"
  by (simp add: aggregate_def Let_def probabilityRows_empty)

lemma findIndexFrom_cases:
  "(findIndexFrom P k xs = - 1 \<and> (\<forall>i<length xs. \<not> P (xs ! i)))
   \<or> (\<exists>i<length xs. findIndexFrom P k xs = k + int i \<and> P (xs ! i) \<and> (\<forall>j<i. \<not> P (xs ! j)))"
  if "0 \<le> k"
  using that
proof (induction xs arbitrary: k)
  case Nil
  then show ?case by simp
next
  case (Cons x xs)
  show ?case
  proof (cases "P x")
    case True
    then have "findIndexFrom P k (x # xs) = k + int 0 \<and> P ((x # xs) ! 0)
        \<and> (\<forall>j<0. \<not> P ((x # xs) ! j))" by simp
    then show ?thesis by blast
  next
    case False
    have k1: "0 \<le> k + 1" using Cons.prems by simp
    from Cons.IH [OF k1] show ?thesis
    proof
      assume "findIndexFrom P (k + 1) xs = - 1 \<and> (\<forall>i<length xs. \<not> P (xs ! i))"
      then have "findIndexFrom P k (x # xs) = - 1 \<and> (\<forall>i<length (x # xs). \<not> P ((x # xs) ! i))"
        using False by (auto simp: nth_Cons split: nat.splits)
      then show ?thesis by blast
    next
      assume "\<exists>i<length xs. findIndexFrom P (k + 1) xs = k + 1 + int i \<and> P (xs ! i)
                \<and> (\<forall>j<i. \<not> P (xs ! j))"
      then obtain i where i: "i < length xs" "findIndexFrom P (k + 1) xs = k + 1 + int i"
        "P (xs ! i)" "\<forall>j<i. \<not> P (xs ! j)" by blast
      have "Suc i < length (x # xs) \<and> findIndexFrom P k (x # xs) = k + int (Suc i)
          \<and> P ((x # xs) ! Suc i) \<and> (\<forall>j<Suc i. \<not> P ((x # xs) ! j))"
        using i False by (auto simp: nth_Cons split: nat.splits)
      then show ?thesis by blast
    qed
  qed
qed

lemma survivalAgeOf_cases:
  "(\<exists>i<length pd. p20 (pd ! i) \<le> 0 \<and> (\<forall>j<i. 0 < p20 (pd ! j))
        \<and> survivalAgeOf p pd = Age (age (pd ! i)))
   \<or> ((\<forall>i<length pd. 0 < p20 (pd ! i)) \<and> survivalAgeOf p pd = AgePlus (lifeExpectancy p))"
proof -
  have "(0::int) \<le> 0" by simp
  from findIndexFrom_cases [OF this, of "\<lambda>d. p20 d \<le> 0" pd] show ?thesis
  proof
    assume "findIndexFrom (\<lambda>d. p20 d \<le> 0) 0 pd = - 1 \<and> (\<forall>i<length pd. \<not> p20 (pd ! i) \<le> 0)"
    then have "(\<forall>i<length pd. 0 < p20 (pd ! i)) \<and> survivalAgeOf p pd = AgePlus (lifeExpectancy p)"
      by (simp add: survivalAgeOf_def findIndex_def Let_def not_le)
    then show ?thesis by blast
  next
    assume "\<exists>i<length pd. findIndexFrom (\<lambda>d. p20 d \<le> 0) 0 pd = 0 + int i \<and> p20 (pd ! i) \<le> 0
              \<and> (\<forall>j<i. \<not> p20 (pd ! j) \<le> 0)"
    then obtain i where i: "i < length pd" "findIndexFrom (\<lambda>d. p20 d \<le> 0) 0 pd = int i"
       "p20 (pd ! i) \<le> 0" "\<forall>j<i. \<not> p20 (pd ! j) \<le> 0" by auto
    have "survivalAgeOf p pd = Age (age (pd ! i))"
      using i(2) by (simp add: survivalAgeOf_def findIndex_def Let_def)
    then show ?thesis using i by (auto simp: not_le)
  qed
qed

lemma runSimulation_result:
  assumes "rngOk s"
  shows "\<exists>allRuns s'. simLoop p 0 [] s = Some (allRuns, s') \<and> length allRuns = SIMULATIONS
           \<and> (\<forall>r\<in>set allRuns. runWf (nat (yearsToSimulate p + 1)) r)
           \<and> runSimulation p s = Some (aggregate p allRuns)"
proof -
  from batch_total [OF assms, of p] obtain allRuns s'
    where 1: "simLoop p 0 [] s = Some (allRuns, s')" "length allRuns = SIMULATIONS"
      "\<forall>r\<in>set allRuns. runWf (nat (yearsToSimulate p + 1)) r" by blast
  have "runSimulation p s = Some (aggregate p allRuns)"
    using 1(1) by (simp add: runSimulation_def)
  with 1 show ?thesis by blast
qed

lemma runSimulation_fixed_stream:
  "simulatePath p s = Some (r, s)
   \<Longrightarrow> runSimulation p s = Some (aggregate p (replicate SIMULATIONS r))"
  using simLoop_fixed_stream [of p s r 0 "[]"] by (simp add: runSimulation_def)

text \<open>
  With a negative horizon no row is produced, and reading the last row for
  \<^verbatim>\<open>medianEndWealth\<close> throws.
\<close>

lemma runSimulation_negative_horizon:
  assumes "rngOk s" and "lifeExpectancy p < currentAge p"
  shows "runSimulation p s = Some (Inl TypeError)"
proof -
  from runSimulation_result [OF assms(1), of p] obtain allRuns
    where "runSimulation p s = Some (aggregate p allRuns)" by blast
  then show ?thesis using aggregate_error [OF assms(2)] by simp
qed

lemma successCount_replicate:
  "successCount p (replicate n r) = (if succeeds p r then n else 0)"
  by (simp add: successCount_def)

lemma yearValues_replicate: "yearValues (replicate n r) i = replicate n (total r ! i)"
  by (simp add: yearValues_def sorted_sort_id)


lemma probabilityRow_replicate:
  "probabilityRow p (replicate SIMULATIONS r) i =
     \<lparr>age = currentAge p + int i, p20 = total r ! i, p50 = total r ! i, p80 = total r ! i\<rparr>"
  by (simp add: probabilityRow_def yearValues_replicate rank_values SIMULATIONS_def)

subsection \<open>Two concrete paths\<close>

lemma simulatePath_allSucceed:
  "simulatePath allSucceedParams (constStream (1/4)) = Some (allSucceedPath, constStream (1/4))"
  by (simp add: simulatePath_def yearLoop.simps generateGaussian_quarter yearsToSimulate_def
      meanRealReturn_def yearBody_def applyGrowth_def cashflow_def decumulate_def executeCashFlow_def
      actualPortfolioWithdrawal_def portfolioNeed_def withdraw_def withdrawTaxable_def
      withdrawPreTax_def withdrawRoth_def floorAtZero_def pushYear_def ledgerTotal_def
      allSucceedParams_def defaultParams_def allSucceedPath_def Let_def)


section \<open>The claims\<close>

subsection \<open>Cash flow of one retired year\<close>

text \<open>
  C2.  Ordered withdrawal in a retired year with a net need of 10000, a taxable balance of
  5000, a capital-gains inclusion of 50 per cent and an income tax rate of 30 per cent:
  the factor of the taxable account is 1 - 0.5 * 0.3 = 0.85, the account is liquidated
  (its balance becomes 0) and contributes 5000 * 0.85 = 4250 net, and the net need handed
  to the pre-tax stage is exactly 5750.
\<close>

theorem withdrawal_ordering_scenario:
  assumes "capitalGainsInclusion p = 50" and "incomeTaxRate p = 30" and "bTaxable b = 5000"
  shows "withdrawTaxable p (b, 10000) = (b\<lparr>bTaxable := 0\<rparr>, 5750)
       \<and> 1 - (capitalGainsInclusion p / 100) * (incomeTaxRate p / 100) = 0.85
       \<and> 10000 - snd (withdrawTaxable p (b, 10000)) = 5000 * 0.85
       \<and> 5000 * 0.85 = (4250::real)
       \<and> executeCashFlow p 10000 b
           = fst (withdrawRoth (withdrawPreTax p (b\<lparr>bTaxable := 0\<rparr>, 5750)))"
  using assms by (simp add: withdrawTaxable_def executeCashFlow_def withdraw_def Let_def)

theorem withdrawal_ordering_scenario_witness:
  "capitalGainsInclusion defaultParams = 50 \<and> incomeTaxRate defaultParams = 30
   \<and> bTaxable \<lparr>bTaxable = 5000, bPreTax = 40000, bRoth = 10000\<rparr> = 5000
   \<and> withdrawTaxable defaultParams (\<lparr>bTaxable = 5000, bPreTax = 40000, bRoth = 10000\<rparr>, 10000)
       = (\<lparr>bTaxable = 0, bPreTax = 40000, bRoth = 10000\<rparr>, 5750)"
proof -
  have h: "capitalGainsInclusion defaultParams = 50" "incomeTaxRate defaultParams = 30"
    "bTaxable \<lparr>bTaxable = 5000, bPreTax = 40000, bRoth = 10000\<rparr> = 5000"
    by (simp_all add: defaultParams_def)
  from withdrawal_ordering_scenario [OF h] show ?thesis using h by simp
qed

text \<open>
  C3.  In every retired year with \<open>portfolioNeed > 0\<close> and \<open>gain < portfolioNeed\<close> the
  withdrawal that is executed is
  \<open>portfolioNeed - min (portfolioNeed - gain) (discretionarySpending * spendingCutFlexibility / 100)\<close>;
  with a need of 60000, a gain of 40000, discretionary spending of 20000 and a flexibility
  of 50 it is exactly 50000.
\<close>

theorem shortfall_cut:
  "(portfolioNeed p a > 0 \<and> gain < portfolioNeed p a \<longrightarrow>
      actualPortfolioWithdrawal p a gain =
        portfolioNeed p a
          - min (portfolioNeed p a - gain)
                (discretionarySpending p * (spendingCutFlexibility p / 100)))
   \<and> (a \<ge> retirementAge p \<and> portfolioNeed p a > 0
        \<and> ledgerTotal b - startTotal < portfolioNeed p a \<longrightarrow>
      cashflow p a startTotal b =
        executeCashFlow p
          (portfolioNeed p a
             - min (portfolioNeed p a - (ledgerTotal b - startTotal))
                   (discretionarySpending p * (spendingCutFlexibility p / 100))) b)
   \<and> (portfolioNeed p a = 60000 \<and> gain = 40000 \<and> discretionarySpending p = 20000
        \<and> spendingCutFlexibility p = 50 \<longrightarrow>
      actualPortfolioWithdrawal p a gain = 50000)"
  by (simp add: actualPortfolioWithdrawal_def cashflow_def decumulate_def maxCutAmount_def Let_def)

theorem shortfall_cut_witness:
  "65 \<ge> retirementAge defaultParams
   \<and> portfolioNeed defaultParams 65 = 60000
   \<and> ledgerTotal \<lparr>bTaxable = 540000, bPreTax = 300000, bRoth = 200000\<rparr> - 1000000 = 40000
   \<and> discretionarySpending defaultParams = 20000 \<and> spendingCutFlexibility defaultParams = 50
   \<and> actualPortfolioWithdrawal defaultParams 65 40000 = 50000
   \<and> cashflow defaultParams 65 1000000 \<lparr>bTaxable = 540000, bPreTax = 300000, bRoth = 200000\<rparr>
       = executeCashFlow defaultParams 50000
           \<lparr>bTaxable = 540000, bPreTax = 300000, bRoth = 200000\<rparr>"
proof -
  let ?b = "\<lparr>bTaxable = 540000, bPreTax = 300000, bRoth = 200000\<rparr>"
  have h: "65 \<ge> retirementAge defaultParams" "portfolioNeed defaultParams 65 = 60000"
    "ledgerTotal ?b - 1000000 = 40000"
    "discretionarySpending defaultParams = 20000" "spendingCutFlexibility defaultParams = 50"
    by (simp_all add: portfolioNeed_def ledgerTotal_def defaultParams_def)
  from shortfall_cut [of defaultParams 65 40000 ?b 1000000] h
  have w: "actualPortfolioWithdrawal defaultParams 65 40000 = 50000"
    by blast
  from shortfall_cut [of defaultParams 65 40000 ?b 1000000] h
  have "cashflow defaultParams 65 1000000 ?b =
        executeCashFlow defaultParams
          (portfolioNeed defaultParams 65
             - min (portfolioNeed defaultParams 65 - (ledgerTotal ?b - 1000000))
                   (discretionarySpending defaultParams
                      * (spendingCutFlexibility defaultParams / 100))) ?b"
    by simp
  then have c: "cashflow defaultParams 65 1000000 ?b = executeCashFlow defaultParams 50000 ?b"
    by (simp add: h)
  from h w c show ?thesis by (intro conjI)
qed

text \<open>
  C4.  In every retired year whose computed withdrawal is negative, the cash-flow step adds
  the absolute surplus to the taxable balance and leaves the pre-tax and Roth balances as
  they were; with an active fixed income of 50000 and a target spend of 40000 the taxable
  balance goes up by exactly 10000.
\<close>

theorem surplus_deposit:
  "(a \<ge> retirementAge p \<and> actualPortfolioWithdrawal p a (ledgerTotal b - startTotal) < 0 \<longrightarrow>
      cashflow p a startTotal b =
        b\<lparr>bTaxable := bTaxable b + \<bar>actualPortfolioWithdrawal p a (ledgerTotal b - startTotal)\<bar>\<rparr>
      \<and> bPreTax (cashflow p a startTotal b) = bPreTax b
      \<and> bRoth (cashflow p a startTotal b) = bRoth b)
   \<and> (a \<ge> retirementAge p \<and> a \<ge> fixedIncomeStartAge p \<and> fixedIncomeAnnual p = 50000
        \<and> minSpending p + discretionarySpending p = 40000 \<longrightarrow>
      portfolioNeed p a = - 10000
      \<and> bTaxable (cashflow p a startTotal b) = bTaxable b + 10000
      \<and> bPreTax (cashflow p a startTotal b) = bPreTax b
      \<and> bRoth (cashflow p a startTotal b) = bRoth b)"
  by (simp add: cashflow_def decumulate_def executeCashFlow_def actualPortfolioWithdrawal_def
      portfolioNeed_def Let_def)

theorem surplus_deposit_witness:
  "70 \<ge> retirementAge surplusParams \<and> 70 \<ge> fixedIncomeStartAge surplusParams
   \<and> fixedIncomeAnnual surplusParams = 50000
   \<and> minSpending surplusParams + discretionarySpending surplusParams = 40000
   \<and> cashflow surplusParams 70 900000 \<lparr>bTaxable = 500000, bPreTax = 300000, bRoth = 200000\<rparr>
       = \<lparr>bTaxable = 510000, bPreTax = 300000, bRoth = 200000\<rparr>"
proof -
  let ?b = "\<lparr>bTaxable = 500000, bPreTax = 300000, bRoth = 200000\<rparr>"
  have h: "70 \<ge> retirementAge surplusParams \<and> 70 \<ge> fixedIncomeStartAge surplusParams
     \<and> fixedIncomeAnnual surplusParams = 50000
     \<and> minSpending surplusParams + discretionarySpending surplusParams = 40000"
    by (simp add: surplusParams_def defaultParams_def)
  with surplus_deposit [of surplusParams 70 ?b 900000]
  have "bTaxable (cashflow surplusParams 70 900000 ?b) = bTaxable ?b + 10000
      \<and> bPreTax (cashflow surplusParams 70 900000 ?b) = bPreTax ?b
      \<and> bRoth (cashflow surplusParams 70 900000 ?b) = bRoth ?b"
    by blast
  then have "cashflow surplusParams 70 900000 ?b
      = \<lparr>bTaxable = 510000, bPreTax = 300000, bRoth = 200000\<rparr>"
    by (cases "cashflow surplusParams 70 900000 ?b") simp
  with h show ?thesis by blast
qed

text \<open>
  C10.  A retired year with \<open>portfolioNeed > 0\<close> can end in a deposit: whenever the gain is
  negative and the largest permitted cut
  \<open>discretionarySpending * spendingCutFlexibility / 100\<close> exceeds the need, the cut taken
  exceeds the need, the withdrawal is negative, and its absolute value is added to the
  taxable balance, which grows in a year of loss although the fixed income is below the
  spending target.  The witness is such a year.
\<close>

theorem bad_year_deposit:
  assumes "a \<ge> retirementAge p"
    and "portfolioNeed p a > 0"
    and "ledgerTotal b - startTotal < 0"
    and "discretionarySpending p * (spendingCutFlexibility p / 100) > portfolioNeed p a"
  shows "min (portfolioNeed p a - (ledgerTotal b - startTotal))
             (discretionarySpending p * (spendingCutFlexibility p / 100)) > portfolioNeed p a
       \<and> actualPortfolioWithdrawal p a (ledgerTotal b - startTotal) < 0
       \<and> cashflow p a startTotal b =
           b\<lparr>bTaxable := bTaxable b + \<bar>actualPortfolioWithdrawal p a (ledgerTotal b - startTotal)\<bar>\<rparr>
       \<and> bTaxable (cashflow p a startTotal b) > bTaxable b
       \<and> (if a \<ge> fixedIncomeStartAge p then fixedIncomeAnnual p else 0)
           < minSpending p + discretionarySpending p"
proof -
  let ?need = "portfolioNeed p a" and ?gain = "ledgerTotal b - startTotal"
  let ?maxCut = "discretionarySpending p * (spendingCutFlexibility p / 100)"
  have cut: "min (?need - ?gain) ?maxCut > ?need"
    using assms by simp
  have w: "actualPortfolioWithdrawal p a ?gain = ?need - min (?need - ?gain) ?maxCut"
    using assms by (simp add: actualPortfolioWithdrawal_def maxCutAmount_def Let_def)
  have neg: "actualPortfolioWithdrawal p a ?gain < 0"
    using cut w by simp
  have dec: "cashflow p a startTotal b =
      b\<lparr>bTaxable := bTaxable b + \<bar>actualPortfolioWithdrawal p a ?gain\<bar>\<rparr>"
    using neg assms(1) by (simp add: cashflow_def decumulate_def executeCashFlow_def Let_def)
  have inc: "bTaxable (cashflow p a startTotal b) > bTaxable b"
    using neg by (simp add: dec)
  have fi: "(if a \<ge> fixedIncomeStartAge p then fixedIncomeAnnual p else 0)
           < minSpending p + discretionarySpending p"
    using assms(2) by (simp add: portfolioNeed_def Let_def)
  from cut neg dec inc fi show ?thesis by (intro conjI)
qed

theorem bad_year_deposit_witness:
  "70 \<ge> retirementAge badYearParams
   \<and> portfolioNeed badYearParams 70 > 0
   \<and> ledgerTotal \<lparr>bTaxable = 50000, bPreTax = 30000, bRoth = 15000\<rparr> - 100000 < 0
   \<and> discretionarySpending badYearParams * (spendingCutFlexibility badYearParams / 100)
       > portfolioNeed badYearParams 70
   \<and> fixedIncomeAnnual badYearParams
       < minSpending badYearParams + discretionarySpending badYearParams
   \<and> cashflow badYearParams 70 100000 \<lparr>bTaxable = 50000, bPreTax = 30000, bRoth = 15000\<rparr>
       = \<lparr>bTaxable = 55000, bPreTax = 30000, bRoth = 15000\<rparr>"
proof -
  let ?b = "\<lparr>bTaxable = 50000, bPreTax = 30000, bRoth = 15000\<rparr>"
  have h: "70 \<ge> retirementAge badYearParams" "portfolioNeed badYearParams 70 > 0"
    "ledgerTotal ?b - 100000 < 0"
    "discretionarySpending badYearParams * (spendingCutFlexibility badYearParams / 100)
       > portfolioNeed badYearParams 70"
    by (simp_all add: portfolioNeed_def ledgerTotal_def badYearParams_def defaultParams_def)
  have f: "fixedIncomeAnnual badYearParams
       < minSpending badYearParams + discretionarySpending badYearParams"
    by (simp add: badYearParams_def defaultParams_def)
  have w: "actualPortfolioWithdrawal badYearParams 70 (ledgerTotal ?b - 100000) = - 5000"
    by (simp add: actualPortfolioWithdrawal_def portfolioNeed_def maxCutAmount_def
        ledgerTotal_def badYearParams_def defaultParams_def Let_def)
  from bad_year_deposit [OF h]
  have "cashflow badYearParams 70 100000 ?b =
      ?b\<lparr>bTaxable := bTaxable ?b
             + \<bar>actualPortfolioWithdrawal badYearParams 70 (ledgerTotal ?b - 100000)\<bar>\<rparr>"
    by blast
  then have c: "cashflow badYearParams 70 100000 ?b
      = \<lparr>bTaxable = 55000, bPreTax = 30000, bRoth = 15000\<rparr>"
    by (simp add: w)
  from h f c show ?thesis by (intro conjI)
qed

subsection \<open>The recorded paths\<close>

text \<open>
  C5.  The batch always completes, and in each of its 1000 trajectories every recorded
  balance (taxable, pre-tax, Roth and total) is at least 0 at every age index: the body of
  a year ends with the floor, which replaces a negative account by 0 before the push.
\<close>

theorem floor_invariant:
  assumes "rngOk s"
  shows "\<exists>allRuns s'.
           simLoop p 0 [] s = Some (allRuns, s') \<and> length allRuns = 1000
         \<and> (\<forall>r\<in>set allRuns.
               length (taxable r) = length (total r) \<and> length (pretax r) = length (total r)
             \<and> length (roth r) = length (total r)
             \<and> length (total r) = nat (lifeExpectancy p - currentAge p + 1)
             \<and> (\<forall>i<length (total r).
                   0 \<le> taxable r ! i \<and> 0 \<le> pretax r ! i \<and> 0 \<le> roth r ! i \<and> 0 \<le> total r ! i))"
proof -
  from batch_total [OF assms, of p] obtain allRuns s'
    where 1: "simLoop p 0 [] s = Some (allRuns, s')" "length allRuns = SIMULATIONS"
      "\<forall>r\<in>set allRuns. runWf (nat (yearsToSimulate p + 1)) r" by blast
  have "length (taxable r) = length (total r) \<and> length (pretax r) = length (total r)
             \<and> length (roth r) = length (total r)
             \<and> length (total r) = nat (lifeExpectancy p - currentAge p + 1)
             \<and> (\<forall>i<length (total r).
                   0 \<le> taxable r ! i \<and> 0 \<le> pretax r ! i \<and> 0 \<le> roth r ! i \<and> 0 \<le> total r ! i)"
    if "r \<in> set allRuns" for r
    using 1(3) that by (auto simp: runWf_def yearsToSimulate_def)
  then show ?thesis using 1(1,2) unfolding SIMULATIONS_def by blast
qed

theorem floor_invariant_witness:
  "rngOk (constStream (1/2))
   \<and> (\<exists>allRuns s'.
         simLoop defaultParams 0 [] (constStream (1/2)) = Some (allRuns, s')
       \<and> length allRuns = 1000
       \<and> (\<forall>r\<in>set allRuns. length (total r) = 56
             \<and> (\<forall>i<56. 0 \<le> taxable r ! i \<and> 0 \<le> pretax r ! i \<and> 0 \<le> roth r ! i
                    \<and> 0 \<le> total r ! i)))"
proof -
  have h: "rngOk (constStream (1/2))" by (simp add: rngOk_constStream)
  have n: "nat (lifeExpectancy defaultParams - currentAge defaultParams + 1) = 56"
    by (simp add: defaultParams_def)
  from floor_invariant [OF h, of defaultParams]
  have "\<exists>allRuns s'.
         simLoop defaultParams 0 [] (constStream (1/2)) = Some (allRuns, s')
       \<and> length allRuns = 1000
       \<and> (\<forall>r\<in>set allRuns. length (total r) = 56
             \<and> (\<forall>i<56. 0 \<le> taxable r ! i \<and> 0 \<le> pretax r ! i \<and> 0 \<le> roth r ! i
                    \<and> 0 \<le> total r ! i))"
    unfolding n by metis
  with h show ?thesis by (rule conjI)
qed

subsection \<open>The aggregate result\<close>

text \<open>
  C1, as amended.  For every batch of 1000 paths the returned \<open>successRate\<close> is the number
  of trajectories whose final total balance is at least the initial total net worth
  (\<open>taxableBalance + preTaxBalance + rothBalance\<close>), divided by 1000 and multiplied by 100:
  a percentage between 0 and 100.
\<close>

theorem success_rate_percentage:
  assumes "rngOk s" and "currentAge p \<le> lifeExpectancy p"
  shows "\<exists>allRuns s' res.
           simLoop p 0 [] s = Some (allRuns, s') \<and> length allRuns = 1000
         \<and> runSimulation p s = Some (Inr res)
         \<and> successRate res =
             real (length (filter (\<lambda>r. last (total r)
                      \<ge> taxableBalance p + preTaxBalance p + rothBalance p) allRuns)) / 1000 * 100
         \<and> 0 \<le> successRate res \<and> successRate res \<le> 100"
proof -
  from runSimulation_result [OF assms(1), of p] obtain allRuns s'
    where 1: "simLoop p 0 [] s = Some (allRuns, s')" "length allRuns = SIMULATIONS"
      "\<forall>r\<in>set allRuns. runWf (nat (yearsToSimulate p + 1)) r"
      "runSimulation p s = Some (aggregate p allRuns)" by blast
  let ?start = "taxableBalance p + preTaxBalance p + rothBalance p"
  let ?res = "\<lparr>probabilityData = probabilityRows p allRuns,
          medianData = medianRows p (sortRuns allRuns ! 500),
          successRate = real (successCount p allRuns) / real SIMULATIONS * 100,
          medianEndWealth = p50 (probabilityRows p allRuns ! (length (probabilityRows p allRuns) - 1)),
          survivalAge = survivalAgeOf p (probabilityRows p allRuns)\<rparr>"
  have run: "runSimulation p s = Some (Inr ?res)"
    using 1(4) aggregate_result [OF assms(2), of allRuns] by simp
  have "filter (succeeds p) allRuns = filter (\<lambda>r. last (total r) \<ge> ?start) allRuns"
    using 1(3) assms(2) by (intro filter_cong refl) (simp add: succeeds_wf)
  then have cnt: "successCount p allRuns = length (filter (\<lambda>r. last (total r) \<ge> ?start) allRuns)"
    by (simp add: successCount_def)
  have le: "successCount p allRuns \<le> 1000"
    using successCount_le [of p allRuns] 1(2) by (simp add: SIMULATIONS_def)
  have "successRate ?res = real (length (filter (\<lambda>r. last (total r) \<ge> ?start) allRuns)) / 1000 * 100"
    using cnt by (simp add: SIMULATIONS_def)
  moreover have "0 \<le> successRate ?res \<and> successRate ?res \<le> 100"
    using le by (simp add: SIMULATIONS_def)
  ultimately show ?thesis using 1(1,2) run unfolding SIMULATIONS_def by blast
qed

theorem success_rate_percentage_witness:
  "rngOk (constStream (1/2)) \<and> currentAge defaultParams \<le> lifeExpectancy defaultParams
   \<and> (\<exists>res. runSimulation defaultParams (constStream (1/2)) = Some (Inr res)
          \<and> 0 \<le> successRate res \<and> successRate res \<le> 100)"
proof -
  have h1: "rngOk (constStream (1/2))" by (simp add: rngOk_constStream)
  have h2: "currentAge defaultParams \<le> lifeExpectancy defaultParams"
    by (simp add: defaultParams_def)
  from success_rate_percentage [OF h1 h2]
  have "\<exists>res. runSimulation defaultParams (constStream (1/2)) = Some (Inr res)
          \<and> 0 \<le> successRate res \<and> successRate res \<le> 100"
    by blast
  with h1 h2 show ?thesis by blast
qed

text \<open>
  C1 as stated (the count divided by N, a fraction between 0 and 1) fails: with a fixed
  income that covers the spending target all 1000 paths end above the initial net worth,
  so the count divided by N is 1, and the returned \<open>successRate\<close> is 100.
\<close>

theorem success_rate_counterexample:
  "simLoop allSucceedParams 0 [] (constStream (1/4))
     = Some (replicate 1000 allSucceedPath, constStream (1/4))
   \<and> successCount allSucceedParams (replicate 1000 allSucceedPath) = 1000
   \<and> map_option (map_sum id successRate) (runSimulation allSucceedParams (constStream (1/4)))
     = Some (Inr 100)"
proof -
  have ok: "currentAge allSucceedParams \<le> lifeExpectancy allSucceedParams"
    by (simp add: allSucceedParams_def defaultParams_def)
  have 1: "simLoop allSucceedParams 0 [] (constStream (1/4))
     = Some (replicate 1000 allSucceedPath, constStream (1/4))"
    using simLoop_fixed_stream [OF simulatePath_allSucceed, of 0 "[]"]
    by (simp add: SIMULATIONS_def)
  have s: "succeeds allSucceedParams allSucceedPath"
    by (simp add: succeeds_def startTotalNetWorth_def allSucceedPath_def allSucceedParams_def
        defaultParams_def)
  then have 2: "successCount allSucceedParams (replicate 1000 allSucceedPath) = 1000"
    by (simp add: successCount_replicate)
  have 3: "map_option (map_sum id successRate) (runSimulation allSucceedParams (constStream (1/4)))
     = Some (Inr 100)"
    using 2 by (simp add: runSimulation_fixed_stream [OF simulatePath_allSucceed]
        aggregate_result [OF ok] SIMULATIONS_def)
  from 1 2 3 show ?thesis by (intro conjI)
qed

text \<open>
  C6.  At every age index of the result, \<open>p20 \<le> p50 \<le> p80\<close>, where the three values are
  the entries 200, 500 and 800 (\<open>floor (N * 0.2)\<close>, \<open>floor (N * 0.5)\<close>, \<open>floor (N * 0.8)\<close>) of
  the ascending sort of the 1000 total balances at that index; nothing is interpolated.
\<close>

theorem percentile_ordering:
  assumes "rngOk s" and "currentAge p \<le> lifeExpectancy p"
  shows "\<exists>allRuns s' res.
           simLoop p 0 [] s = Some (allRuns, s') \<and> length allRuns = 1000
         \<and> runSimulation p s = Some (Inr res)
         \<and> length (probabilityData res) = nat (lifeExpectancy p - currentAge p + 1)
         \<and> (\<forall>i<length (probabilityData res).
               (\<forall>r\<in>set allRuns. i < length (total r))
             \<and> age (probabilityData res ! i) = currentAge p + int i
             \<and> p20 (probabilityData res ! i) = sort (map (\<lambda>r. total r ! i) allRuns) ! 200
             \<and> p50 (probabilityData res ! i) = sort (map (\<lambda>r. total r ! i) allRuns) ! 500
             \<and> p80 (probabilityData res ! i) = sort (map (\<lambda>r. total r ! i) allRuns) ! 800
             \<and> p20 (probabilityData res ! i) \<le> p50 (probabilityData res ! i)
             \<and> p50 (probabilityData res ! i) \<le> p80 (probabilityData res ! i))
         \<and> nat \<lfloor>real SIMULATIONS * 0.2\<rfloor> = 200
         \<and> nat \<lfloor>real SIMULATIONS * 0.5\<rfloor> = 500
         \<and> nat \<lfloor>real SIMULATIONS * 0.8\<rfloor> = 800"
proof -
  have ranks: "nat \<lfloor>real SIMULATIONS * 0.2\<rfloor> = 200" "nat \<lfloor>real SIMULATIONS * 0.5\<rfloor> = 500"
    "nat \<lfloor>real SIMULATIONS * 0.8\<rfloor> = 800"
    by (simp_all add: SIMULATIONS_def)
  from runSimulation_result [OF assms(1), of p] obtain allRuns s'
    where 1: "simLoop p 0 [] s = Some (allRuns, s')" "length allRuns = SIMULATIONS"
      "\<forall>r\<in>set allRuns. runWf (nat (yearsToSimulate p + 1)) r"
      "runSimulation p s = Some (aggregate p allRuns)" by blast
  let ?res = "\<lparr>probabilityData = probabilityRows p allRuns,
          medianData = medianRows p (sortRuns allRuns ! 500),
          successRate = real (successCount p allRuns) / real SIMULATIONS * 100,
          medianEndWealth = p50 (probabilityRows p allRuns ! (length (probabilityRows p allRuns) - 1)),
          survivalAge = survivalAgeOf p (probabilityRows p allRuns)\<rparr>"
  have run: "runSimulation p s = Some (Inr ?res)"
    using 1(4) aggregate_result [OF assms(2), of allRuns] by simp
  have len: "length (probabilityData ?res) = nat (lifeExpectancy p - currentAge p + 1)"
    by (simp add: length_probabilityRows yearsToSimulate_def)
  have rows: "(\<forall>r\<in>set allRuns. i < length (total r))
             \<and> age (probabilityData ?res ! i) = currentAge p + int i
             \<and> p20 (probabilityData ?res ! i) = sort (map (\<lambda>r. total r ! i) allRuns) ! 200
             \<and> p50 (probabilityData ?res ! i) = sort (map (\<lambda>r. total r ! i) allRuns) ! 500
             \<and> p80 (probabilityData ?res ! i) = sort (map (\<lambda>r. total r ! i) allRuns) ! 800
             \<and> p20 (probabilityData ?res ! i) \<le> p50 (probabilityData ?res ! i)
             \<and> p50 (probabilityData ?res ! i) \<le> p80 (probabilityData ?res ! i)"
    if "i < length (probabilityData ?res)" for i
  proof -
    from that have i: "i < nat (yearsToSimulate p + 1)"
      by (simp add: length_probabilityRows)
    have row: "probabilityData ?res ! i = probabilityRow p allRuns i"
      using i by (simp add: nth_probabilityRows)
    have "\<forall>r\<in>set allRuns. i < length (total r)"
      using 1(3) i by (auto simp: runWf_def)
    moreover have "age (probabilityRow p allRuns i) = currentAge p + int i"
      "p20 (probabilityRow p allRuns i) = sort (map (\<lambda>r. total r ! i) allRuns) ! 200"
      "p50 (probabilityRow p allRuns i) = sort (map (\<lambda>r. total r ! i) allRuns) ! 500"
      "p80 (probabilityRow p allRuns i) = sort (map (\<lambda>r. total r ! i) allRuns) ! 800"
      by (simp_all add: probabilityRow_def yearValues_def rank_values)
    ultimately show ?thesis
      using probabilityRow_ordered [OF 1(2), of p i] by (simp only: row)
  qed
  have "\<exists>allRuns s' res.
           simLoop p 0 [] s = Some (allRuns, s') \<and> length allRuns = 1000
         \<and> runSimulation p s = Some (Inr res)
         \<and> length (probabilityData res) = nat (lifeExpectancy p - currentAge p + 1)
         \<and> (\<forall>i<length (probabilityData res).
               (\<forall>r\<in>set allRuns. i < length (total r))
             \<and> age (probabilityData res ! i) = currentAge p + int i
             \<and> p20 (probabilityData res ! i) = sort (map (\<lambda>r. total r ! i) allRuns) ! 200
             \<and> p50 (probabilityData res ! i) = sort (map (\<lambda>r. total r ! i) allRuns) ! 500
             \<and> p80 (probabilityData res ! i) = sort (map (\<lambda>r. total r ! i) allRuns) ! 800
             \<and> p20 (probabilityData res ! i) \<le> p50 (probabilityData res ! i)
             \<and> p50 (probabilityData res ! i) \<le> p80 (probabilityData res ! i))"
    using 1(1,2) run len rows unfolding SIMULATIONS_def by blast
  with ranks show ?thesis by blast
qed

theorem percentile_ordering_witness:
  "rngOk (constStream (1/2)) \<and> currentAge defaultParams \<le> lifeExpectancy defaultParams
   \<and> (\<exists>res. runSimulation defaultParams (constStream (1/2)) = Some (Inr res)
         \<and> length (probabilityData res) = 56
         \<and> (\<forall>i<56. p20 (probabilityData res ! i) \<le> p50 (probabilityData res ! i)
                  \<and> p50 (probabilityData res ! i) \<le> p80 (probabilityData res ! i)))"
proof -
  have h1: "rngOk (constStream (1/2))" by (simp add: rngOk_constStream)
  have h2: "currentAge defaultParams \<le> lifeExpectancy defaultParams"
    by (simp add: defaultParams_def)
  have n: "nat (lifeExpectancy defaultParams - currentAge defaultParams + 1) = 56"
    by (simp add: defaultParams_def)
  from percentile_ordering [OF h1 h2]
  have "\<exists>res. runSimulation defaultParams (constStream (1/2)) = Some (Inr res)
         \<and> length (probabilityData res) = 56
         \<and> (\<forall>i<56. p20 (probabilityData res ! i) \<le> p50 (probabilityData res ! i)
                  \<and> p50 (probabilityData res ! i) \<le> p80 (probabilityData res ! i))"
    unfolding n by metis
  with h1 h2 show ?thesis by blast
qed

text \<open>
  C7.  The returned \<open>survivalAge\<close> is the age of the first row, in ascending order of age,
  whose \<open>p20\<close> is at most 0; when no row has one, it is the open-ended value
  \<open>AgePlus lifeExpectancy\<close> (the string of the life expectancy followed by a plus sign),
  which is not an age.
\<close>

theorem survival_age:
  assumes "rngOk s" and "currentAge p \<le> lifeExpectancy p"
  shows "\<exists>res. runSimulation p s = Some (Inr res)
         \<and> ((\<exists>i<length (probabilityData res).
                p20 (probabilityData res ! i) \<le> 0
              \<and> (\<forall>j<i. 0 < p20 (probabilityData res ! j))
              \<and> survivalAge res = Age (age (probabilityData res ! i))
              \<and> age (probabilityData res ! i) = currentAge p + int i)
            \<or> ((\<forall>i<length (probabilityData res). 0 < p20 (probabilityData res ! i))
              \<and> survivalAge res = AgePlus (lifeExpectancy p)
              \<and> (\<forall>a. survivalAge res \<noteq> Age a)))"
proof -
  from runSimulation_result [OF assms(1), of p] obtain allRuns s'
    where 1: "runSimulation p s = Some (aggregate p allRuns)" by blast
  let ?pd = "probabilityRows p allRuns"
  let ?res = "\<lparr>probabilityData = ?pd,
          medianData = medianRows p (sortRuns allRuns ! 500),
          successRate = real (successCount p allRuns) / real SIMULATIONS * 100,
          medianEndWealth = p50 (?pd ! (length ?pd - 1)),
          survivalAge = survivalAgeOf p ?pd\<rparr>"
  have run: "runSimulation p s = Some (Inr ?res)"
    using 1 aggregate_result [OF assms(2), of allRuns] by simp
  have ages: "age (?pd ! i) = currentAge p + int i" if "i < length ?pd" for i
    using that by (simp add: length_probabilityRows nth_probabilityRows probabilityRow_def)
  from survivalAgeOf_cases [of ?pd p]
  have "(\<exists>i<length (probabilityData ?res).
                p20 (probabilityData ?res ! i) \<le> 0
              \<and> (\<forall>j<i. 0 < p20 (probabilityData ?res ! j))
              \<and> survivalAge ?res = Age (age (probabilityData ?res ! i))
              \<and> age (probabilityData ?res ! i) = currentAge p + int i)
            \<or> ((\<forall>i<length (probabilityData ?res). 0 < p20 (probabilityData ?res ! i))
              \<and> survivalAge ?res = AgePlus (lifeExpectancy p)
              \<and> (\<forall>a. survivalAge ?res \<noteq> Age a))"
    using ages by auto
  with run show ?thesis by blast
qed

theorem survival_age_witness:
  "rngOk (constStream (1/2)) \<and> currentAge defaultParams \<le> lifeExpectancy defaultParams
   \<and> (\<exists>res. runSimulation defaultParams (constStream (1/2)) = Some (Inr res)
         \<and> ((\<exists>i<length (probabilityData res). survivalAge res = Age (35 + int i)
                 \<and> p20 (probabilityData res ! i) \<le> 0)
             \<or> survivalAge res = AgePlus 90))"
proof -
  have h1: "rngOk (constStream (1/2))" by (simp add: rngOk_constStream)
  have h2: "currentAge defaultParams \<le> lifeExpectancy defaultParams"
    by (simp add: defaultParams_def)
  have a: "currentAge defaultParams = 35" "lifeExpectancy defaultParams = 90"
    by (simp_all add: defaultParams_def)
  from survival_age [OF h1 h2]
  have "\<exists>res. runSimulation defaultParams (constStream (1/2)) = Some (Inr res)
         \<and> ((\<exists>i<length (probabilityData res). survivalAge res = Age (35 + int i)
                 \<and> p20 (probabilityData res ! i) \<le> 0)
             \<or> survivalAge res = AgePlus 90)"
    unfolding a by metis
  with h1 h2 show ?thesis by blast
qed

text \<open>
  C9.  With \<open>volatility = 0\<close> every sampled return is the expected return exactly, whatever
  the generator draws (the parameter \<open>expectedReturn\<close> is a percentage, and the mean that is
  sampled is \<^verbatim>\<open>meanRealReturn\<close>, that is \<open>expectedReturn / 100\<close>).  So the 1000
  trajectories are one and the same, at every age \<open>p20 = p50 = p80\<close> (the total of that
  trajectory), and \<open>successRate\<close> is 0 or 100: all paths succeed or all fail.  The sign of
  \<open>expectedReturn\<close> plays no part.
\<close>

theorem zero_volatility:
  assumes "rngOk s" and "currentAge p \<le> lifeExpectancy p" and "volatility p = 0"
  shows "(\<forall>t x t'. generateGaussian (meanRealReturn p) (vol p) t = Some (x, t')
            \<longrightarrow> x = meanRealReturn p \<and> x = expectedReturn p / 100)
       \<and> (\<exists>r0 s' res.
             simLoop p 0 [] s = Some (replicate 1000 r0, s')
           \<and> runSimulation p s = Some (Inr res)
           \<and> length (probabilityData res) = length (total r0)
           \<and> (\<forall>i<length (probabilityData res).
                 p20 (probabilityData res ! i) = p50 (probabilityData res ! i)
               \<and> p50 (probabilityData res ! i) = p80 (probabilityData res ! i)
               \<and> p50 (probabilityData res ! i) = total r0 ! i)
           \<and> (successRate res = 0 \<or> successRate res = 100))"
proof -
  have samp: "\<forall>t x t'. generateGaussian (meanRealReturn p) (vol p) t = Some (x, t')
            \<longrightarrow> x = meanRealReturn p \<and> x = expectedReturn p / 100"
    using assms(3) by (auto simp: vol_def meanRealReturn_def dest: generateGaussian_zero_dev)
  from zero_volatility_batch [OF assms(1,3)] obtain r0 s'
    where 1: "simLoop p 0 [] s = Some (replicate SIMULATIONS r0, s')"
      and wf: "runWf (nat (yearsToSimulate p + 1)) r0" by blast
  let ?rs = "replicate SIMULATIONS r0"
  let ?res = "\<lparr>probabilityData = probabilityRows p ?rs,
          medianData = medianRows p (sortRuns ?rs ! 500),
          successRate = real (successCount p ?rs) / real SIMULATIONS * 100,
          medianEndWealth = p50 (probabilityRows p ?rs ! (length (probabilityRows p ?rs) - 1)),
          survivalAge = survivalAgeOf p (probabilityRows p ?rs)\<rparr>"
  have run: "runSimulation p s = Some (Inr ?res)"
    using 1 aggregate_result [OF assms(2), of ?rs] by (simp add: runSimulation_def)
  have len: "length (probabilityData ?res) = length (total r0)"
    using wf by (simp add: length_probabilityRows runWf_def)
  have rows: "\<forall>i<length (probabilityData ?res).
                 p20 (probabilityData ?res ! i) = p50 (probabilityData ?res ! i)
               \<and> p50 (probabilityData ?res ! i) = p80 (probabilityData ?res ! i)
               \<and> p50 (probabilityData ?res ! i) = total r0 ! i"
    by (simp add: length_probabilityRows nth_probabilityRows probabilityRow_replicate)
  have rate: "successRate ?res = 0 \<or> successRate ?res = 100"
    by (simp add: successCount_replicate SIMULATIONS_def)
  have "simLoop p 0 [] s = Some (replicate 1000 r0, s')"
    using 1 by (simp add: SIMULATIONS_def)
  with run len rows rate have "\<exists>r0 s' res.
             simLoop p 0 [] s = Some (replicate 1000 r0, s')
           \<and> runSimulation p s = Some (Inr res)
           \<and> length (probabilityData res) = length (total r0)
           \<and> (\<forall>i<length (probabilityData res).
                 p20 (probabilityData res ! i) = p50 (probabilityData res ! i)
               \<and> p50 (probabilityData res ! i) = p80 (probabilityData res ! i)
               \<and> p50 (probabilityData res ! i) = total r0 ! i)
           \<and> (successRate res = 0 \<or> successRate res = 100)"
    by blast
  with samp show ?thesis by (rule conjI)
qed

theorem zero_volatility_witness:
  "rngOk (constStream (1/2)) \<and> currentAge zeroVolParams \<le> lifeExpectancy zeroVolParams
   \<and> volatility zeroVolParams = 0
   \<and> (\<exists>r0 s' res.
         simLoop zeroVolParams 0 [] (constStream (1/2)) = Some (replicate 1000 r0, s')
       \<and> runSimulation zeroVolParams (constStream (1/2)) = Some (Inr res)
       \<and> (\<forall>i<length (probabilityData res).
             p20 (probabilityData res ! i) = p50 (probabilityData res ! i)
           \<and> p50 (probabilityData res ! i) = p80 (probabilityData res ! i))
       \<and> (successRate res = 0 \<or> successRate res = 100))"
proof -
  have h1: "rngOk (constStream (1/2))" by (simp add: rngOk_constStream)
  have h2: "currentAge zeroVolParams \<le> lifeExpectancy zeroVolParams"
    by (simp add: zeroVolParams_def defaultParams_def)
  have h3: "volatility zeroVolParams = 0"
    by (simp add: zeroVolParams_def)
  from zero_volatility [OF h1 h2 h3]
  have "\<exists>r0 s' res.
         simLoop zeroVolParams 0 [] (constStream (1/2)) = Some (replicate 1000 r0, s')
       \<and> runSimulation zeroVolParams (constStream (1/2)) = Some (Inr res)
       \<and> (\<forall>i<length (probabilityData res).
             p20 (probabilityData res ! i) = p50 (probabilityData res ! i)
           \<and> p50 (probabilityData res ! i) = p80 (probabilityData res ! i))
       \<and> (successRate res = 0 \<or> successRate res = 100)"
    by blast
  with h1 h2 h3 show ?thesis by blast
qed

subsection \<open>Parameters outside the documented ranges\<close>




end
